theory Spec2Isabelle
  imports Main "HOL-Library.Word" "HOL-Library.Sublist"
begin

section \<open>Shared data model\<close>

text \<open>
  Go byte slices and strings are byte sequences; an Isabelle \<open>char\<close> is one byte, so both
  are modelled as \<open>string\<close>.
\<close>

type_synonym bytes = string

text \<open>
  Go \<open>error\<close> values. \<open>GoError\<close> is an error produced by a collaborator (storage, network,
  codec), \<open>E op cause\<close> is \<open>errors.E(errors.Op(op), cause)\<close>, \<open>NotFoundError\<close> is the
  persistence error of the specification's taxonomy, and \<open>NilPointerDereference\<close> is the Go
  runtime error raised by a method call on a nil interface value.
\<close>

datatype error =
    GoError string
  | E string "error option"
  | NotFoundError
  | NilPointerDereference

text \<open>
  A Go call either returns (a value, and the state it leaves behind) or panics (with the
  panic value, and the state at that moment). A panic that nobody recovers ends the process.
\<close>

datatype ('a, 's) outcome = Return 'a 's | Panic error 's

fun state_of :: "('a, 's) outcome \<Rightarrow> 's" where
  "state_of (Return a s) = s"
| "state_of (Panic e s) = s"

fun panicked :: "('a, 's) outcome \<Rightarrow> bool" where
  "panicked (Return a s) = False"
| "panicked (Panic e s) = True"

section \<open>Order service (service/order.go)\<close>

subsection \<open>Protocol buffer messages used by the service\<close>

datatype State = OPEN | LOCKED

record Timestamp =
  Seconds :: "64 word"
  Nanos :: "32 word"

text \<open>
  The price is a floating point number that the service only copies from the request into
  the order; it is kept as its 64 bit pattern.
\<close>

record CreateRequest =
  Asset :: bytes
  CounterAsset :: bytes
  Amount :: "64 word"
  Price :: "64 word"

record Order =
  Id :: bytes
  Created :: Timestamp
  Asset :: bytes
  CounterAsset :: bytes
  Amount :: "64 word"
  Price :: "64 word"
  State :: State
  Signature :: bytes

record CreateResponse =
  CreatedOrder :: Order
  Error :: "error option"

record GenericResponse =
  Error :: "error option"

record OrderSpecificRequest =
  Id :: bytes

subsection \<open>Collaborators\<close>

text \<open>
  The library functions \<open>Create\<close> calls: \<open>hmac.New(sha256.New, key)\<close> followed by
  \<open>Write\<close> and \<open>Sum(nil)\<close>, the text rendering \<open>String()\<close> of a request and of a
  timestamp, and \<open>proto.Marshal\<close> / \<open>proto.Unmarshal\<close>. They are parameters of the model.
\<close>

record lib =
  hmac_sha256 :: "bytes \<Rightarrow> bytes \<Rightarrow> bytes"
  CreateRequest_String :: "CreateRequest \<Rightarrow> bytes"
  Timestamp_String :: "Timestamp \<Rightarrow> bytes"
  Marshal :: "Order \<Rightarrow> error + bytes"
  Unmarshal :: "bytes \<Rightarrow> error + Order"

text \<open>
  \<open>interfaces.Storage\<close>: the operations of the key-value store over its state \<open>'db\<close>.
  \<open>Put\<close> and \<open>Delete\<close> return the error (if any) and the new state.
\<close>

record 'db Storage =
  Put :: "bytes \<Rightarrow> bytes \<Rightarrow> 'db \<Rightarrow> error option \<times> 'db"
  Get :: "bytes \<Rightarrow> 'db \<Rightarrow> error + bytes"
  Delete :: "bytes \<Rightarrow> 'db \<Rightarrow> error option \<times> 'db"

text \<open>
  The state an operation of the service can touch: the database behind \<open>s.storage\<close> and
  the messages handed to \<open>s.p2p\<close> for broadcast (kept abstract as \<open>'net\<close>).
\<close>

record ('db, 'net) world =
  db :: 'db
  p2p :: 'net

subsection \<open>Create, Delete, Lock, Unlock\<close>

definition secret :: bytes where
  "secret = ''mysecret''"

text \<open>
  \<open>Create\<close>: \<open>now\<close> is the value of \<open>ptypes.TimestampNow()\<close>. The result pairs the
  response with the Go error return (always nil when the function returns). The line
  \<open>fmt.Println(s)\<close> writes to the console and is left out.
\<close>

definition Create ::
  "lib \<Rightarrow> Timestamp \<Rightarrow> 'db Storage \<Rightarrow> ('db, 'net) world \<Rightarrow> CreateRequest
     \<Rightarrow> (CreateResponse \<times> error option, ('db, 'net) world) outcome" where
  "Create L now storage w in' =
     (let id = hmac_sha256 L secret (CreateRequest_String L in' @ Timestamp_String L now);
          order = \<lparr> Order.Id = id, Created = now,
                    Asset = CreateRequest.Asset in',
                    CounterAsset = CreateRequest.CounterAsset in',
                    Amount = CreateRequest.Amount in',
                    Price = CreateRequest.Price in',
                    State = OPEN, Signature = [] \<rparr>
      in case Marshal L order of
           Inl err \<Rightarrow> Panic err w
         | Inr orderInBytes \<Rightarrow>
             (case Put storage id orderInBytes (db w) of
                (Some err, d) \<Rightarrow> Panic err (w\<lparr>db := d\<rparr>)
              | (None, d) \<Rightarrow>
                  Return (\<lparr> CreatedOrder = order, CreateResponse.Error = None \<rparr>, None)
                         (w\<lparr>db := d\<rparr>)))"

definition Delete_order ::
  "'db Storage \<Rightarrow> ('db, 'net) world \<Rightarrow> OrderSpecificRequest
     \<Rightarrow> (GenericResponse \<times> error option, ('db, 'net) world) outcome" where
  "Delete_order storage w in' =
     (case Delete storage (OrderSpecificRequest.Id in') (db w) of
        (Some err, d) \<Rightarrow> Panic err (w\<lparr>db := d\<rparr>)
      | (None, d) \<Rightarrow> Return (\<lparr> GenericResponse.Error = None \<rparr>, None) (w\<lparr>db := d\<rparr>))"

definition Lock ::
  "'db Storage \<Rightarrow> ('db, 'net) world \<Rightarrow> OrderSpecificRequest
     \<Rightarrow> (GenericResponse \<times> error option, ('db, 'net) world) outcome" where
  "Lock storage w in' = Return (\<lparr> GenericResponse.Error = None \<rparr>, None) w"

definition Unlock ::
  "'db Storage \<Rightarrow> ('db, 'net) world \<Rightarrow> OrderSpecificRequest
     \<Rightarrow> (GenericResponse \<times> error option, ('db, 'net) world) outcome" where
  "Unlock storage w in' = Return (\<lparr> GenericResponse.Error = None \<rparr>, None) w"

text \<open>
  Modelled from the spec: \<open>getOrderStorageKey\<close> and the constant \<open>interfaces.OrderPrefix\<close>
  are not part of the service's source file; only the tests that call them are. The key layout is
  \<open><entityPrefix><channelScope><entityId>\<close>, the prefix being a parameter.
\<close>

definition getOrderStorageKey :: "bytes \<Rightarrow> bytes \<Rightarrow> bytes \<Rightarrow> bytes" where
  "getOrderStorageKey OrderPrefix channelID orderID = OrderPrefix @ channelID @ orderID"

text \<open>
  Modelled from the spec: \<open>GetOrder\<close> is not part of the service's source file; only the
  tests that call it are. \<open>GetOrder(channel, orderId) -> Order or NotFoundError\<close> reads the record
  stored under the composite key of the order and decodes it.
\<close>

definition GetOrder ::
  "lib \<Rightarrow> bytes \<Rightarrow> 'db Storage \<Rightarrow> ('db, 'net) world \<Rightarrow> bytes \<Rightarrow> bytes \<Rightarrow> error + Order" where
  "GetOrder L OrderPrefix storage w channelID orderID =
     (case Get storage (getOrderStorageKey OrderPrefix channelID orderID) (db w) of
        Inl err \<Rightarrow> Inl NotFoundError
      | Inr data \<Rightarrow> Unmarshal L data)"

subsection \<open>Concrete collaborators for evaluation\<close>

text \<open>
  An in-memory key-value store, a store whose writes fail, and stand-ins for the library
  functions (the decoder knows the one record of the examples). They serve to run the
  service on concrete inputs; the general theorems do not depend on them.
\<close>

definition memStorage :: "(bytes \<rightharpoonup> bytes) Storage" where
  "memStorage =
     \<lparr> Put = (\<lambda>k v d. (None, d(k \<mapsto> v))),
       Get = (\<lambda>k d. case d k of None \<Rightarrow> Inl NotFoundError | Some v \<Rightarrow> Inr v),
       Delete = (\<lambda>k d. (None, d(k := None))) \<rparr>"

definition failingStorage :: "(bytes \<rightharpoonup> bytes) Storage" where
  "failingStorage =
     \<lparr> Put = (\<lambda>k v d. (Some (GoError ''leveldb: closed''), d)),
       Get = (\<lambda>k d. Inl (GoError ''leveldb: closed'')),
       Delete = (\<lambda>k d. (Some (GoError ''leveldb: closed''), d)) \<rparr>"

definition exampleNow :: Timestamp where
  "exampleNow = \<lparr> Seconds = 1, Nanos = 0 \<rparr>"

definition exampleOrder :: Order where
  "exampleOrder =
     \<lparr> Order.Id = ''hmac(mysecret,asset:ETH counterAsset:BTCseconds:1)'', Created = exampleNow,
       Asset = ''ETH'', CounterAsset = ''BTC'', Amount = 52617562718, Price = 0,
       State = OPEN, Signature = [] \<rparr>"

definition exampleOrderBytes :: bytes where
  "exampleOrderBytes = ''hmac(mysecret,asset:ETH counterAsset:BTCseconds:1)/ETH/BTC''"

definition exampleLib :: lib where
  "exampleLib =
     \<lparr> hmac_sha256 = (\<lambda>key msg. ''hmac('' @ key @ '','' @ msg @ '')''),
       CreateRequest_String =
         (\<lambda>r. ''asset:'' @ CreateRequest.Asset r @ '' counterAsset:'' @ CreateRequest.CounterAsset r),
       Timestamp_String = (\<lambda>t. if Seconds t = 0 then ''seconds:0'' else ''seconds:1''),
       Marshal = (\<lambda>ord. Inr (Order.Id ord @ ''/'' @ Order.Asset ord @ ''/'' @ Order.CounterAsset ord)),
       Unmarshal = (\<lambda>b. if b = exampleOrderBytes then Inr exampleOrder
                         else Inl (GoError ''proto: cannot parse'')) \<rparr>"

definition exampleRequest :: CreateRequest where
  "exampleRequest =
     \<lparr> CreateRequest.Asset = ''ETH'', CounterAsset = ''BTC'', Amount = 52617562718, Price = 0 \<rparr>"

definition emptyWorld :: "(bytes \<rightharpoonup> bytes, bytes list) world" where
  "emptyWorld = \<lparr> db = Map.empty, p2p = [] \<rparr>"

section \<open>Peer-to-peer transport (p2p/main.go, p2p/stream.go)\<close>

subsection \<open>Broadcast to the discovered peers\<close>

type_synonym peer_id = string

record AddrInfo =
  ID :: peer_id
  Addrs :: "string list"

text \<open>
  The calls a broadcast makes on the transport, in order: \<open>host.NewStream\<close> towards a peer,
  and \<open>Write\<close> and \<open>Flush\<close> on the buffered writer of the stream to a peer. What the
  network answers is given by \<open>network\<close>: the error (if any) of each call, which may depend
  on everything that happened before.
\<close>

datatype net_event =
    NewStream_call peer_id
  | Write_call peer_id bytes
  | Flush_call peer_id

fun target :: "net_event \<Rightarrow> peer_id" where
  "target (NewStream_call p) = p"
| "target (Write_call p b) = p"
| "target (Flush_call p) = p"

record network =
  NewStream_err :: "net_event list \<Rightarrow> peer_id \<Rightarrow> error option"
  Write_err :: "net_event list \<Rightarrow> peer_id \<Rightarrow> bytes \<Rightarrow> error option"
  Flush_err :: "net_event list \<Rightarrow> peer_id \<Rightarrow> error option"

definition writeData ::
  "network \<Rightarrow> peer_id \<Rightarrow> bytes \<Rightarrow> net_event list \<Rightarrow> (unit, net_event list) outcome" where
  "writeData N p input log =
     (case Write_err N log p input of
        Some err \<Rightarrow> Panic err (log @ [Write_call p input])
      | None \<Rightarrow>
          (case Flush_err N (log @ [Write_call p input]) p of
             Some err \<Rightarrow> Panic err (log @ [Write_call p input, Flush_call p])
           | None \<Rightarrow> Return () (log @ [Write_call p input, Flush_call p])))"

text \<open>
  \<open>writeData\<close> writes to a fresh \<open>bufio.Writer\<close>: a message that fits its buffer is only
  copied by \<open>Write\<close>, and a failure of the stream then shows at \<open>Flush\<close>.
  \<open>sendToPeers\<close> ranges over the peer channel; the list holds the peers the channel
  delivers until it is closed. \<open>hostID\<close> is \<open>host.ID()\<close>.
\<close>

fun sendToPeers ::
  "network \<Rightarrow> peer_id \<Rightarrow> AddrInfo list \<Rightarrow> bytes \<Rightarrow> net_event list
     \<Rightarrow> (unit, net_event list) outcome" where
  "sendToPeers N hostID [] input log = Return () log"
| "sendToPeers N hostID (peer # peerChan) input log =
     (if ID peer = hostID then sendToPeers N hostID peerChan input log
      else
        (case NewStream_err N log (ID peer) of
           Some err \<Rightarrow> sendToPeers N hostID peerChan input (log @ [NewStream_call (ID peer)])
         | None \<Rightarrow>
             (case writeData N (ID peer) input (log @ [NewStream_call (ID peer)]) of
                Panic e l \<Rightarrow> Panic e l
              | Return u l \<Rightarrow> sendToPeers N hostID peerChan input l)))"



subsection \<open>Reading frames from a stream\<close>

text \<open>
  A \<open>bufio.Reader\<close> over a stream: the bytes the remote side sends and the error with which
  the stream ends (\<open>io.EOF\<close> on a close, or a reset). \<open>ReadBytes delim\<close> returns the data up
  to and including the first \<open>delim\<close>; when the stream ends before a \<open>delim\<close> it returns the
  data read so far and the error.
\<close>

record reader =
  pending :: bytes
  final :: error

definition newline :: char where
  "newline = CHR 0x0A"

definition ReadBytes :: "char \<Rightarrow> reader \<Rightarrow> (bytes \<times> error option) \<times> reader" where
  "ReadBytes delim r =
     (if delim \<in> set (pending r) then
        (let n = Suc (length (takeWhile (\<lambda>c. c \<noteq> delim) (pending r)))
         in ((take n (pending r), None), r\<lparr>pending := drop n (pending r)\<rparr>))
      else ((pending r, Some (final r)), r\<lparr>pending := []\<rparr>))"

lemma ReadBytes_consumes:
  "ReadBytes delim r = ((data, None), r') \<Longrightarrow> length (pending r') < length (pending r)"
  by (cases "pending r") (auto simp: ReadBytes_def Let_def split: if_splits)

text \<open>
  \<open>readData\<close> (p2p/main.go). The state is what was printed. A nil slice has no elements, so
  \<open>bytes == nil\<close> is read as "no data".
\<close>

function readData :: "reader \<Rightarrow> bytes list \<Rightarrow> (unit, bytes list) outcome" where
  "readData r out =
     (case ReadBytes newline r of
        ((bytes, Some err), r') \<Rightarrow> Panic err (out @ [''Error reading from buffer''])
      | ((bytes, None), r') \<Rightarrow>
          (if bytes = [] then Return () out
           else if hd bytes \<noteq> newline
             then readData r' (out @ [[CHR 0x1B] @ ''[32m'' @ bytes @ [CHR 0x1B] @ ''[0m> ''])
             else readData r' out))"
  by pat_completeness auto
termination
  by (relation "measure (\<lambda>(r, out). length (pending r))") (auto dest: ReadBytes_consumes [OF sym])

text \<open>
  \<open>receiveStream\<close> (p2p/stream.go). The events are the calls \<open>receiver.Receive(data)\<close> and
  \<open>stream.stream.Close()\<close>, in order. A receiver answers each frame with an error or none
  (an error for which \<open>errors.IsEmpty\<close> holds counts as none); the answer may depend on the
  frames it was given before. \<open>None\<close> as receiver is the nil interface.
\<close>

datatype stream_event = Receive_call bytes | Close_call

record receiver =
  Receive_err :: "stream_event list \<Rightarrow> bytes \<Rightarrow> error option"

datatype step = Continue "stream_event list" | Stop "error option" "stream_event list"

text \<open>One pass through the body of the loop, from the result of \<open>ReadBytes\<close> on.\<close>

definition receiveStream_body ::
  "receiver option \<Rightarrow> bytes \<times> error option \<Rightarrow> stream_event list \<Rightarrow> step" where
  "receiveStream_body rcv rd log =
     (case rd of
        (data, Some err) \<Rightarrow> Stop (Some (E ''Reading bytes from stream'' (Some err))) log
      | (data, None) \<Rightarrow>
          (case rcv of
             None \<Rightarrow> Stop (Some (E ''No receiver defined for stream.receiveStream'' None)) log
           | Some rc \<Rightarrow>
               (case Receive_err rc log data of
                  Some err \<Rightarrow>
                    Stop (Some (E ''Passing data from stream to receiver'' (Some err)))
                         (log @ [Receive_call data])
                | None \<Rightarrow>
                    (if data = [] then Stop None (log @ [Receive_call data, Close_call])
                     else Continue (log @ [Receive_call data])))))"

function receiveStream ::
  "receiver option \<Rightarrow> reader \<Rightarrow> stream_event list \<Rightarrow> (error option, stream_event list) outcome" where
  "receiveStream rcv r log =
     (case ReadBytes newline r of
        (rd, r') \<Rightarrow>
          (case receiveStream_body rcv rd log of
             Stop res log' \<Rightarrow> Return res log'
           | Continue log' \<Rightarrow> receiveStream rcv r' log'))"
  by pat_completeness auto

termination
  by (relation "measure (\<lambda>(rcv, r, log). length (pending r))")
     (auto simp: receiveStream_body_def dest: ReadBytes_consumes [OF sym]
           split: option.splits if_splits)

fun step_log :: "step \<Rightarrow> stream_event list" where
  "step_log (Continue log) = log"
| "step_log (Stop res log) = log"

fun delivered :: "stream_event list \<Rightarrow> bytes list" where
  "delivered [] = []"
| "delivered (Receive_call d # evs) = d # delivered evs"
| "delivered (Close_call # evs) = delivered evs"

subsection \<open>Closing a stream by peer identity\<close>

text \<open>
  A \<open>Stream\<close> holds the network stream (an interface value, \<open>None\<close> when nil) and its
  buffered writer and reader (pointers, \<open>None\<close> when nil). Connections are named by numbers.
\<close>

type_synonym conn = nat

record Stream =
  stream :: "conn option"
  input :: "conn option"
  "output" :: "conn option"

text \<open>The zero value of \<open>Stream\<close>, which a Go map yields for a key it does not hold.\<close>

definition zeroStream :: Stream where
  "zeroStream = \<lparr> stream = None, input = None, output = None \<rparr>"

text \<open>
  The part of \<open>P2p\<close> that \<open>CloseStream\<close> touches: the map \<open>p2p.streams\<close> and, as the trace of
  its effect on the network, the connections on which \<open>Close\<close> was called. \<open>OpenStream\<close>
  stores \<open>Stream\<close> values in the map (\<open>p2p.streams[peerIDString] = Stream{...}\<close>), so
  indexing it with a key it does not hold gives the zero \<open>Stream\<close>.
\<close>

record P2p =
  streams :: "string \<rightharpoonup> Stream"
  closed :: "conn list"

definition map_index :: "(string \<rightharpoonup> Stream) \<Rightarrow> string \<Rightarrow> Stream" where
  "map_index m k = (case m k of None \<Rightarrow> zeroStream | Some s \<Rightarrow> s)"

text \<open>\<open>Close_err\<close> is the error (if any) the network returns for closing a connection.\<close>

definition CloseStream ::
  "(conn \<Rightarrow> error option) \<Rightarrow> string \<Rightarrow> P2p \<Rightarrow> (error option, P2p) outcome" where
  "CloseStream Close_err peerIDString p =
     (case stream (map_index (streams p) peerIDString) of
        None \<Rightarrow> Panic NilPointerDereference p
      | Some c \<Rightarrow>
          Return (Close_err c)
                 (p\<lparr> streams := (streams p)(peerIDString := None), closed := closed p @ [c] \<rparr>))"

text \<open>A registry holding one stream, to peer \<open>peerA\<close> over connection 1.\<close>

definition exampleP2p :: P2p where
  "exampleP2p =
     \<lparr> streams = [''peerA'' \<mapsto> \<lparr> stream = Some 1, input = Some 1, output = None \<rparr>],
       closed = [] \<rparr>"

subsection \<open>Concrete networks, peers and streams for evaluation\<close>

definition okNetwork :: network where
  "okNetwork =
     \<lparr> NewStream_err = (\<lambda>h p. None), Write_err = (\<lambda>h p b. None), Flush_err = (\<lambda>h p. None) \<rparr>"



definition peerA :: AddrInfo where "peerA = \<lparr> ID = ''A'', Addrs = [] \<rparr>"
definition peerB :: AddrInfo where "peerB = \<lparr> ID = ''B'', Addrs = [] \<rparr>"

definition acceptAll :: receiver where
  "acceptAll = \<lparr> Receive_err = (\<lambda>h d. None) \<rparr>"

definition rejectAll :: receiver where
  "rejectAll = \<lparr> Receive_err = (\<lambda>h d. Some (GoError ''proto: cannot parse'')) \<rparr>"

text \<open>A stream that carries one complete frame and then ends.\<close>

definition oneFrameThenEOF :: reader where
  "oneFrameThenEOF = \<lparr> pending = ''order'' @ [newline], final = GoError ''EOF'' \<rparr>"

text \<open>A frame as \<open>ReadBytes\<close> cuts it: it ends with the delimiter and holds no other.\<close>

definition frame_ok :: "bytes \<Rightarrow> bool" where
  "frame_ok d = (d \<noteq> [] \<and> last d = newline \<and> newline \<notin> set (butlast d))"

section \<open>Properties of the order service\<close>

lemma example_Create:
  "Create exampleLib exampleNow memStorage emptyWorld exampleRequest
     = Return (\<lparr> CreatedOrder = exampleOrder, CreateResponse.Error = None \<rparr>, None)
              (emptyWorld\<lparr> db := [Order.Id exampleOrder \<mapsto> exampleOrderBytes] \<rparr>)"
  by (simp add: Create_def exampleLib_def exampleNow_def memStorage_def emptyWorld_def
      exampleRequest_def secret_def exampleOrder_def exampleOrderBytes_def Let_def)




text \<open>
  C2. \<open>Lock\<close> answers with success and leaves everything as it was: the stored order keeps
  its state, no signature is computed, nothing is persisted and nothing is handed to the
  peer-to-peer layer. This holds for every order, also one this node created.
\<close>

theorem Lock_changes_nothing:
  "Lock storage w req = Return (\<lparr> GenericResponse.Error = None \<rparr>, None) w
   \<and> db (state_of (Lock storage w req)) = db w
   \<and> p2p (state_of (Lock storage w req)) = p2p w"
  by (simp add: Lock_def)

text \<open>
  C3. When the \<open>Put\<close> that \<open>Create\<close> performs (on the id, with the encoded order) returns
  an error, \<open>Create\<close> does not return to its caller: it panics with that error.
\<close>

theorem Create_panics_when_Put_fails:
  assumes "Marshal L
             \<lparr> Order.Id = hmac_sha256 L secret (CreateRequest_String L req @ Timestamp_String L now),
               Created = now, Asset = CreateRequest.Asset req,
               CounterAsset = CreateRequest.CounterAsset req,
               Amount = CreateRequest.Amount req, Price = CreateRequest.Price req,
               State = OPEN, Signature = [] \<rparr> = Inr orderInBytes"
      and "Put storage (hmac_sha256 L secret (CreateRequest_String L req @ Timestamp_String L now))
             orderInBytes (db w) = (Some err, d)"
  shows "Create L now storage w req = Panic err (w\<lparr>db := d\<rparr>)
       \<and> panicked (Create L now storage w req)"
  using assms by (simp add: Create_def Let_def)

theorem Create_panics_when_Put_fails_witness:
  "Put failingStorage (Order.Id exampleOrder) exampleOrderBytes (db emptyWorld)
     = (Some (GoError ''leveldb: closed''), db emptyWorld)
   \<and> Create exampleLib exampleNow failingStorage emptyWorld exampleRequest
     = Panic (GoError ''leveldb: closed'') emptyWorld"
proof -
  have enc: "Marshal exampleLib
             \<lparr> Order.Id = hmac_sha256 exampleLib secret
                   (CreateRequest_String exampleLib exampleRequest @ Timestamp_String exampleLib exampleNow),
               Created = exampleNow, Asset = CreateRequest.Asset exampleRequest,
               CounterAsset = CreateRequest.CounterAsset exampleRequest,
               Amount = CreateRequest.Amount exampleRequest, Price = CreateRequest.Price exampleRequest,
               State = OPEN, Signature = [] \<rparr> = Inr exampleOrderBytes"
    by (simp add: exampleLib_def exampleRequest_def exampleNow_def secret_def exampleOrderBytes_def)
  have put: "Put failingStorage
             (hmac_sha256 exampleLib secret
                (CreateRequest_String exampleLib exampleRequest @ Timestamp_String exampleLib exampleNow))
             exampleOrderBytes (db emptyWorld) = (Some (GoError ''leveldb: closed''), db emptyWorld)"
    by (simp add: failingStorage_def)
  from Create_panics_when_Put_fails [OF enc put]
  show ?thesis by (simp add: failingStorage_def)
qed

text \<open>
  C9. With the in-memory store, \<open>Create\<close> adds exactly one key, and that key is the id of
  the order itself: the record does not sit under the composite key
  \<open>getOrderStorageKey OrderPrefix channelID id\<close> unless prefix and channel are both empty
  or that key was there before.
\<close>

theorem Create_stores_under_bare_id:
  assumes "Create L now memStorage w req = Return (resp, err) w'"
  shows "(\<exists>orderInBytes. db w' = (db w)(Order.Id (CreatedOrder resp) \<mapsto> orderInBytes))
       \<and> (OrderPrefix @ channelID \<noteq> [] \<longrightarrow>
            db w' (getOrderStorageKey OrderPrefix channelID (Order.Id (CreatedOrder resp)))
              = db w (getOrderStorageKey OrderPrefix channelID (Order.Id (CreatedOrder resp))))"
  using assms
  by (auto simp: Create_def Let_def memStorage_def getOrderStorageKey_def
           split: sum.splits prod.splits option.splits)

theorem Create_stores_under_bare_id_witness:
  "Create exampleLib exampleNow memStorage emptyWorld exampleRequest
     = Return (\<lparr> CreatedOrder = exampleOrder, CreateResponse.Error = None \<rparr>, None)
              (emptyWorld\<lparr> db := [Order.Id exampleOrder \<mapsto> exampleOrderBytes] \<rparr>)
   \<and> ''order-'' @ ''BTC,ETH'' \<noteq> []
   \<and> [Order.Id exampleOrder \<mapsto> exampleOrderBytes]
         (getOrderStorageKey ''order-'' ''BTC,ETH'' (Order.Id exampleOrder)) = None"
  using Create_stores_under_bare_id [OF example_Create, of "''order-''" "''BTC,ETH''"] example_Create
  by (simp add: emptyWorld_def)

text \<open>
  C8. After \<open>Create\<close> on an empty in-memory store, \<open>GetOrder\<close> for the returned id finds
  nothing under the composite key as soon as prefix and channel are not both empty: it
  answers \<open>NotFoundError\<close>, whatever the codec is.
\<close>

theorem GetOrder_after_Create_not_found:
  assumes "Create L now memStorage emptyWorld req = Return (resp, err) w'"
      and "OrderPrefix @ channelID \<noteq> []"
  shows "GetOrder L OrderPrefix memStorage w' channelID (Order.Id (CreatedOrder resp))
           = Inl NotFoundError"
  using assms
  by (auto simp: Create_def Let_def memStorage_def getOrderStorageKey_def GetOrder_def
                 emptyWorld_def
           split: sum.splits prod.splits option.splits)

theorem GetOrder_after_Create_not_found_witness:
  "Create exampleLib exampleNow memStorage emptyWorld exampleRequest
     = Return (\<lparr> CreatedOrder = exampleOrder, CreateResponse.Error = None \<rparr>, None)
              (emptyWorld\<lparr> db := [Order.Id exampleOrder \<mapsto> exampleOrderBytes] \<rparr>)
   \<and> Unmarshal exampleLib exampleOrderBytes = Inr exampleOrder
   \<and> GetOrder exampleLib ''order-'' memStorage
         (emptyWorld\<lparr> db := [Order.Id exampleOrder \<mapsto> exampleOrderBytes] \<rparr>)
         ''BTC,ETH'' (Order.Id exampleOrder)
       = Inl NotFoundError"
  using GetOrder_after_Create_not_found [OF example_Create, of "''order-''" "''BTC,ETH''"]
        example_Create
  by (simp add: exampleLib_def)

section \<open>Properties of the broadcast\<close>

text \<open>What one \<open>writeData\<close> adds to the trace concerns only the peer of its stream.\<close>

lemma writeData_log:
  "\<exists>new. state_of (writeData N p msg log) = log @ new
         \<and> (\<forall>ev \<in> set new. target ev = p)
         \<and> (\<forall>q b. Write_call q b \<in> set new \<longrightarrow> b = msg)"
  by (auto simp: writeData_def split: option.splits)

lemma sendToPeers_log:
  "\<exists>new. state_of (sendToPeers N hostID peerChan msg log) = log @ new
         \<and> (\<forall>ev \<in> set new. target ev \<noteq> hostID \<and> target ev \<in> ID ` set peerChan)
         \<and> (\<forall>q b. Write_call q b \<in> set new \<longrightarrow> b = msg)"
proof (induction peerChan arbitrary: log)
  case Nil
  then show ?case by simp
next
  case (Cons peer peerChan)
  let ?opened = "log @ [NewStream_call (ID peer)]"
  show ?case
  proof (cases "ID peer = hostID")
    case True
    from Cons.IH [of log]
    obtain new where new: "state_of (sendToPeers N hostID peerChan msg log) = log @ new"
       "\<forall>ev \<in> set new. target ev \<noteq> hostID \<and> target ev \<in> ID ` set peerChan"
       "\<forall>q b. Write_call q b \<in> set new \<longrightarrow> b = msg"
      by blast
    have "state_of (sendToPeers N hostID (peer # peerChan) msg log) = log @ new"
      using True new(1) by simp
    moreover have "\<forall>ev \<in> set new. target ev \<noteq> hostID \<and> target ev \<in> ID ` set (peer # peerChan)"
      using new(2) by auto
    ultimately show ?thesis using new(3) by blast
  next
    case False
    show ?thesis
    proof (cases "NewStream_err N log (ID peer)")
      case (Some err)
      from Cons.IH [of ?opened]
      obtain new where new: "state_of (sendToPeers N hostID peerChan msg ?opened) = ?opened @ new"
         "\<forall>ev \<in> set new. target ev \<noteq> hostID \<and> target ev \<in> ID ` set peerChan"
         "\<forall>q b. Write_call q b \<in> set new \<longrightarrow> b = msg"
        by blast
      let ?all = "NewStream_call (ID peer) # new"
      have "state_of (sendToPeers N hostID (peer # peerChan) msg log) = log @ ?all"
        using False Some new(1) by simp
      moreover have "\<forall>ev \<in> set ?all. target ev \<noteq> hostID \<and> target ev \<in> ID ` set (peer # peerChan)"
        using False new(2) by auto
      moreover have "\<forall>q b. Write_call q b \<in> set ?all \<longrightarrow> b = msg"
        using new(3) by auto
      ultimately show ?thesis by blast
    next
      case None
      from writeData_log [of N "ID peer" msg ?opened]
      obtain wr where wr: "state_of (writeData N (ID peer) msg ?opened) = ?opened @ wr"
             "\<forall>ev \<in> set wr. target ev = ID peer"
             "\<forall>q b. Write_call q b \<in> set wr \<longrightarrow> b = msg"
        by blast
      let ?mine = "NewStream_call (ID peer) # wr"
      have mine: "\<forall>ev \<in> set ?mine. target ev \<noteq> hostID \<and> target ev \<in> ID ` set (peer # peerChan)"
        using False wr(2) by auto
      have mine_msg: "\<forall>q b. Write_call q b \<in> set ?mine \<longrightarrow> b = msg"
        using wr(3) by auto
      show ?thesis
      proof (cases "writeData N (ID peer) msg ?opened")
        case (Panic e l)
        with wr have l: "l = log @ ?mine" by simp
        have "state_of (sendToPeers N hostID (peer # peerChan) msg log) = log @ ?mine"
          using False None Panic l by simp
        then show ?thesis using mine mine_msg by blast
      next
        case (Return u l)
        with wr have l: "l = log @ ?mine" by simp
        from Cons.IH [of l]
        obtain new where new: "state_of (sendToPeers N hostID peerChan msg l) = l @ new"
          "\<forall>ev \<in> set new. target ev \<noteq> hostID \<and> target ev \<in> ID ` set peerChan"
          "\<forall>q b. Write_call q b \<in> set new \<longrightarrow> b = msg"
          by blast
        have "state_of (sendToPeers N hostID (peer # peerChan) msg log) = log @ (?mine @ new)"
          using False None Return new(1) l by simp
        moreover have "\<forall>ev \<in> set (?mine @ new). target ev \<noteq> hostID \<and> target ev \<in> ID ` set (peer # peerChan)"
          using mine new(2) by auto
        moreover have "\<forall>q b. Write_call q b \<in> set (?mine @ new) \<longrightarrow> b = msg"
          using mine_msg new(3) by auto
        ultimately show ?thesis by blast
      qed
    qed
  qed
qed

text \<open>
  C4. Whatever the network does and whichever peers are discovered, every call a broadcast
  makes on the transport (opening a stream, writing, flushing) is aimed at a peer other
  than the host itself, also when the broadcast ends in a panic.
\<close>

theorem sendToPeers_never_to_self:
  "\<forall>ev \<in> set (state_of (sendToPeers N hostID peerChan msg [])). target ev \<noteq> hostID"
  using sendToPeers_log [of N hostID peerChan msg "[]"] by auto

theorem sendToPeers_never_to_self_witness:
  "sendToPeers okNetwork ''A'' [peerA, peerB] ''order'' []
     = Return () [NewStream_call ''B'', Write_call ''B'' ''order'', Flush_call ''B'']
   \<and> target (Write_call ''B'' ''order'') \<noteq> ''A''"
  using sendToPeers_never_to_self [of okNetwork "''A''" "[peerA, peerB]" "''order''"]
  by (simp add: okNetwork_def writeData_def peerA_def peerB_def)










section \<open>Properties of the read loops\<close>

text \<open>A successful \<open>ReadBytes\<close> cuts one frame off the front of the stream.\<close>

lemma ReadBytes_frame:
  assumes "ReadBytes delim r = ((data, None), r')"
  shows "pending r = data @ pending r'" "data \<noteq> []" "last data = delim"
        "delim \<notin> set (butlast data)"
proof -
  from assms have mem: "delim \<in> set (pending r)"
    by (auto simp: ReadBytes_def Let_def split: if_splits)
  define pre where "pre = takeWhile (\<lambda>c. c \<noteq> delim) (pending r)"
  define post where "post = dropWhile (\<lambda>c. c \<noteq> delim) (pending r)"
  have split: "pending r = pre @ post" by (simp add: pre_def post_def)
  from mem have "post \<noteq> []" by (auto simp: post_def)
  moreover have "hd post = delim"
    using mem hd_dropWhile [of "\<lambda>c. c \<noteq> delim" "pending r"] by (auto simp: post_def)
  ultimately obtain rest where post: "post = delim # rest" by (cases post) auto
  have nodelim: "delim \<notin> set pre" by (auto simp: pre_def dest: set_takeWhileD)
  from assms mem have d: "data = take (Suc (length pre)) (pending r)"
    and r': "pending r' = drop (Suc (length pre)) (pending r)"
    by (auto simp: ReadBytes_def Let_def pre_def)
  from d split post have data: "data = pre @ [delim]" by simp
  from r' split post have rest: "pending r' = rest" by simp
  show "pending r = data @ pending r'" using split post data rest by simp
  show "data \<noteq> []" using data by simp
  show "last data = delim" using data by simp
  show "delim \<notin> set (butlast data)" using data nodelim by simp
qed

lemma ReadBytes_error:
  "ReadBytes delim r = ((data, Some err), r') \<Longrightarrow> err = final r \<and> delim \<notin> set (pending r) \<and> data = pending r"
  by (auto simp: ReadBytes_def Let_def split: if_splits)

text \<open>
  What \<open>receiveStream\<close> adds to the trace: the frames it hands to the receiver are frames
  as \<open>ReadBytes\<close> cuts them, they are consecutive pieces of the stream from its start, and
  \<open>Close\<close> is not among the calls.
\<close>

lemma receiveStream_log:
  "\<exists>new. state_of (receiveStream rcv r log) = log @ new
         \<and> prefix (concat (delivered new)) (pending r)
         \<and> list_all frame_ok (delivered new)
         \<and> Close_call \<notin> set new"
proof (induction rcv r log rule: receiveStream.induct)
  case (1 rcv r log)
  obtain data err r' where rb: "ReadBytes newline r = ((data, err), r')"
    by (metis prod.exhaust)
  show ?case
  proof (cases err)
    case (Some e)
    with rb show ?thesis
      by (simp add: receiveStream_body_def)
  next
    case None
    note fr = ReadBytes_frame [OF rb [unfolded None]]
    have ok: "frame_ok data" using fr by (simp add: frame_ok_def)
    show ?thesis
    proof (cases "receiveStream_body rcv (data, None) log")
      case (Stop res log')
      with fr ok rb None show ?thesis
        by (auto simp: receiveStream_body_def split: option.splits if_splits)
    next
      case (Continue log')
      then have log': "log' = log @ [Receive_call data]"
        by (auto simp: receiveStream_body_def split: option.splits if_splits)
      from "1.IH" [OF rb [symmetric] Continue [unfolded None[symmetric]]] None
      obtain new where new: "state_of (receiveStream rcv r' log') = log' @ new"
        "prefix (concat (delivered new)) (pending r')" "list_all frame_ok (delivered new)"
        "Close_call \<notin> set new"
        by auto
      have "state_of (receiveStream rcv r log) = log @ (Receive_call data # new)"
        using rb None Continue new(1) log' by simp
      moreover have "prefix (concat (delivered (Receive_call data # new))) (pending r)"
        using new(2) fr(1) by simp
      moreover have "list_all frame_ok (delivered (Receive_call data # new))"
        using new(3) ok by simp
      moreover have "Close_call \<notin> set (Receive_call data # new)"
        using new(4) by simp
      ultimately show ?thesis by blast
    qed
  qed
qed

text \<open>With a receiver that accepts every frame, every complete frame of the stream is delivered.\<close>

lemma receiveStream_accepting:
  assumes acc: "\<forall>h d. Receive_err rc h d = None"
  shows "\<exists>new rest. receiveStream (Some rc) r log
            = Return (Some (E ''Reading bytes from stream'' (Some (final r)))) (log @ new)
         \<and> pending r = concat (delivered new) @ rest \<and> newline \<notin> set rest"
proof (induction "Some rc" r log rule: receiveStream.induct)
  case (1 r log)
  obtain data err r' where rb: "ReadBytes newline r = ((data, err), r')"
    by (metis prod.exhaust)
  show ?case
  proof (cases err)
    case (Some e)
    with rb ReadBytes_error [of newline r data e r'] have "e = final r" "newline \<notin> set (pending r)"
      by auto
    with rb Some have "receiveStream (Some rc) r log
            = Return (Some (E ''Reading bytes from stream'' (Some (final r)))) (log @ [])
         \<and> pending r = concat (delivered []) @ pending r \<and> newline \<notin> set (pending r)"
      by (simp add: receiveStream_body_def)
    then show ?thesis by blast
  next
    case None
    note fr = ReadBytes_frame [OF rb [unfolded None]]
    have body: "receiveStream_body (Some rc) (data, err) log = Continue (log @ [Receive_call data])"
      using acc fr(2) None by (simp add: receiveStream_body_def)
    have fin: "final r' = final r"
      using rb by (auto simp: ReadBytes_def Let_def split: if_splits)
    from "1.hyps" [OF rb [symmetric] body]
    obtain new rest where new:
      "receiveStream (Some rc) r' (log @ [Receive_call data])
         = Return (Some (E ''Reading bytes from stream'' (Some (final r'))))
                  ((log @ [Receive_call data]) @ new)"
      "pending r' = concat (delivered new) @ rest" "newline \<notin> set rest"
      by blast
    have "receiveStream (Some rc) r log
            = Return (Some (E ''Reading bytes from stream'' (Some (final r))))
                     (log @ (Receive_call data # new))"
      using rb body new(1) fin by simp
    moreover have "pending r = concat (delivered (Receive_call data # new)) @ rest"
      using fr(1) new(2) by simp
    ultimately show ?thesis using new(3) by blast
  qed
qed

text \<open>\<open>readData\<close> ends in a panic on every stream that ends.\<close>

lemma readData_panics: "panicked (readData r out)"
proof (induction r out rule: readData.induct)
  case (1 r out)
  obtain data err r' where rb: "ReadBytes newline r = ((data, err), r')"
    by (metis prod.exhaust)
  show ?case
  proof (cases err)
    case (Some e)
    with rb show ?thesis by simp
  next
    case None
    note fr = ReadBytes_frame [OF rb [unfolded None]]
    show ?thesis
    proof (cases "hd data \<noteq> newline")
      case True
      with "1.IH"(1) [OF rb [symmetric] refl _ fr(2) True] rb None fr(2)
      show ?thesis by simp
    next
      case False
      with "1.IH"(2) [OF rb [symmetric] refl _ fr(2) False] rb None fr(2)
      show ?thesis by simp
    qed
  qed
qed

lemma receiveStream_never_closes:
  "Close_call \<notin> set (state_of (receiveStream rcv r []))"
  using receiveStream_log [of rcv r "[]"] by auto

text \<open>
  C5, as the claim states it, fails: on a stream that carries one frame and then ends,
  \<open>receiveStream\<close> hands the frame to the receiver and, at the read error, returns without
  ever calling \<open>Close\<close> on the stream, and \<open>readData\<close> on the same stream panics with the
  read error.
\<close>

theorem read_error_counterexample:
  "receiveStream (Some acceptAll) oneFrameThenEOF []
     = Return (Some (E ''Reading bytes from stream'' (Some (GoError ''EOF''))))
              [Receive_call (''order'' @ [newline])]
   \<and> Close_call \<notin> set (state_of (receiveStream (Some acceptAll) oneFrameThenEOF []))
   \<and> readData oneFrameThenEOF []
       = Panic (GoError ''EOF'')
           [[CHR 0x1B] @ ''[32m'' @ ''order'' @ [newline] @ [CHR 0x1B] @ ''[0m> '',
            ''Error reading from buffer'']"
  by (simp add: oneFrameThenEOF_def acceptAll_def ReadBytes_def receiveStream_body_def newline_def)

lemma receiveStream_returns: "\<not> panicked (receiveStream rcv r log)"
proof (induction rcv r log rule: receiveStream.induct)
  case (1 rcv r log)
  obtain rd r' where rb: "ReadBytes newline r = (rd, r')"
    by (cases "ReadBytes newline r") auto
  show ?case
  proof (cases "receiveStream_body rcv rd log")
    case (Continue log')
    with "1.IH" [OF rb [symmetric] Continue] rb show ?thesis by simp
  next
    case (Stop res log')
    with rb show ?thesis by simp
  qed
qed

text \<open>
  C5, amended. When a read fails, \<open>receiveStream\<close> ends its own loop and nothing else: it
  returns the error, wrapped as "Reading bytes from stream", without a further call to the
  receiver; when the receiver rejects a frame it returns that error, wrapped as "Passing
  data from stream to receiver"; it never panics. \<open>readData\<close> panics with the read error.
\<close>

theorem read_error_ends_the_loop:
  "(ReadBytes newline r = ((data, Some err), r') \<longrightarrow>
      receiveStream rcv r log = Return (Some (E ''Reading bytes from stream'' (Some err))) log
    \<and> readData r out = Panic err (out @ [''Error reading from buffer'']))
   \<and> (ReadBytes newline r = ((data, None), r') \<and> Receive_err rc log data = Some e \<longrightarrow>
        receiveStream (Some rc) r log
          = Return (Some (E ''Passing data from stream to receiver'' (Some e)))
                   (log @ [Receive_call data]))
   \<and> \<not> panicked (receiveStream rcv r log)"
  using receiveStream_returns [of rcv r log]
  by (simp add: receiveStream_body_def)

theorem read_error_ends_the_loop_witness:
  "ReadBytes newline \<lparr> pending = ''abc'', final = GoError ''EOF'' \<rparr>
     = ((''abc'', Some (GoError ''EOF'')), \<lparr> pending = [], final = GoError ''EOF'' \<rparr>)
   \<and> receiveStream (Some acceptAll) \<lparr> pending = ''abc'', final = GoError ''EOF'' \<rparr> []
       = Return (Some (E ''Reading bytes from stream'' (Some (GoError ''EOF'')))) []
   \<and> readData \<lparr> pending = ''abc'', final = GoError ''EOF'' \<rparr> []
       = Panic (GoError ''EOF'') [''Error reading from buffer'']
   \<and> ReadBytes newline oneFrameThenEOF
       = ((''order'' @ [newline], None), \<lparr> pending = [], final = GoError ''EOF'' \<rparr>)
   \<and> Receive_err rejectAll [] (''order'' @ [newline]) = Some (GoError ''proto: cannot parse'')
   \<and> receiveStream (Some rejectAll) oneFrameThenEOF []
       = Return (Some (E ''Passing data from stream to receiver''
                          (Some (GoError ''proto: cannot parse''))))
                [Receive_call (''order'' @ [newline])]"
proof -
  have rb: "ReadBytes newline \<lparr> pending = ''abc'', final = GoError ''EOF'' \<rparr>
     = ((''abc'', Some (GoError ''EOF'')), \<lparr> pending = [], final = GoError ''EOF'' \<rparr>)"
    by (simp add: ReadBytes_def newline_def)
  have rb2: "ReadBytes newline oneFrameThenEOF
       = ((''order'' @ [newline], None), \<lparr> pending = [], final = GoError ''EOF'' \<rparr>)"
    by (simp add: ReadBytes_def newline_def oneFrameThenEOF_def)
  have rej: "Receive_err rejectAll [] (''order'' @ [newline]) = Some (GoError ''proto: cannot parse'')"
    by (simp add: rejectAll_def)
  from read_error_ends_the_loop
         [of "\<lparr> pending = ''abc'', final = GoError ''EOF'' \<rparr>" "''abc''" "GoError ''EOF''"
             "\<lparr> pending = [], final = GoError ''EOF'' \<rparr>" "Some acceptAll" "[]" "[]"] rb
  have first: "receiveStream (Some acceptAll) \<lparr> pending = ''abc'', final = GoError ''EOF'' \<rparr> []
       = Return (Some (E ''Reading bytes from stream'' (Some (GoError ''EOF'')))) []
     \<and> readData \<lparr> pending = ''abc'', final = GoError ''EOF'' \<rparr> []
       = Panic (GoError ''EOF'') [''Error reading from buffer'']"
    by simp
  from read_error_ends_the_loop
         [of oneFrameThenEOF "''order'' @ [newline]" _
             "\<lparr> pending = [], final = GoError ''EOF'' \<rparr>" _ "[]" _ rejectAll
             "GoError ''proto: cannot parse''"] rb2 rej
  have second: "receiveStream (Some rejectAll) oneFrameThenEOF []
       = Return (Some (E ''Passing data from stream to receiver''
                          (Some (GoError ''proto: cannot parse''))))
                [Receive_call (''order'' @ [newline])]"
    by simp
  from rb rb2 rej first second show ?thesis by simp
qed

text \<open>
  C10. Every frame \<open>receiveStream\<close> hands to the receiver ends with the newline and holds
  no other newline, and the frames handed over, put end to end, are the bytes of the stream
  from its start: nothing is stripped. A receiver that accepts everything gets every
  complete frame. In the body of the loop the frame goes to the receiver first; the test
  for an empty frame, and the \<open>Close\<close> behind it, come after.
\<close>

theorem receiveStream_delivers_raw_frames:
  "list_all frame_ok (delivered (state_of (receiveStream rcv r [])))
   \<and> prefix (concat (delivered (state_of (receiveStream rcv r [])))) (pending r)
   \<and> ((\<forall>h d. Receive_err rc h d = None) \<longrightarrow>
        (\<exists>rest. pending r = concat (delivered (state_of (receiveStream (Some rc) r []))) @ rest
               \<and> newline \<notin> set rest))
   \<and> step_log (receiveStream_body (Some rc) (data, None) log)
       = log @ [Receive_call data]
             @ (if Receive_err rc log data = None \<and> data = [] then [Close_call] else [])"
proof -
  from receiveStream_log [of rcv r "[]"]
  have "list_all frame_ok (delivered (state_of (receiveStream rcv r [])))"
    and "prefix (concat (delivered (state_of (receiveStream rcv r [])))) (pending r)"
    by auto
  moreover have "(\<forall>h d. Receive_err rc h d = None) \<longrightarrow>
        (\<exists>rest. pending r = concat (delivered (state_of (receiveStream (Some rc) r []))) @ rest
               \<and> newline \<notin> set rest)"
  proof
    assume "\<forall>h d. Receive_err rc h d = None"
    from receiveStream_accepting [OF this, of r "[]"] show
      "\<exists>rest. pending r = concat (delivered (state_of (receiveStream (Some rc) r []))) @ rest
               \<and> newline \<notin> set rest"
      by auto
  qed
  moreover have "step_log (receiveStream_body (Some rc) (data, None) log)
       = log @ [Receive_call data]
             @ (if Receive_err rc log data = None \<and> data = [] then [Close_call] else [])"
    by (simp add: receiveStream_body_def split: option.splits)
  ultimately show ?thesis by blast
qed

theorem receiveStream_delivers_raw_frames_witness:
  "delivered (state_of (receiveStream (Some acceptAll)
       \<lparr> pending = ''a'' @ [newline] @ ''bc'' @ [newline] @ ''d'', final = GoError ''EOF'' \<rparr> []))
     = [''a'' @ [newline], ''bc'' @ [newline]]
   \<and> frame_ok (''a'' @ [newline]) \<and> frame_ok (''bc'' @ [newline])
   \<and> step_log (receiveStream_body (Some acceptAll) ([], None) [])
       = [Receive_call [], Close_call]"
  using receiveStream_delivers_raw_frames [of "Some acceptAll"
      "\<lparr> pending = ''a'' @ [newline] @ ''bc'' @ [newline] @ ''d'', final = GoError ''EOF'' \<rparr>"
      acceptAll "[]" "[]"]
  by (simp add: acceptAll_def ReadBytes_def receiveStream_body_def newline_def frame_ok_def)

section \<open>Properties of the stream registry\<close>

lemma CloseStream_unregistered:
  "streams p k = None \<Longrightarrow> CloseStream ce k p = Panic NilPointerDereference p"
  by (simp add: CloseStream_def map_index_def zeroStream_def)

text \<open>
  C7. Closing the stream registered for a peer closes its connection and removes the entry;
  a second close for the same peer finds no entry, calls \<open>Close\<close> on the nil stream of the
  zero value and panics.
\<close>

theorem CloseStream_twice_panics:
  assumes "streams p k = Some s" and "stream s = Some c"
  shows "\<exists>p'. CloseStream ce k p = Return (ce c) p'
            \<and> streams p' k = None \<and> closed p' = closed p @ [c]
            \<and> CloseStream ce k p' = Panic NilPointerDereference p'"
proof -
  let ?p' = "p\<lparr> streams := (streams p)(k := None), closed := closed p @ [c] \<rparr>"
  have "CloseStream ce k p = Return (ce c) ?p'"
    using assms by (simp add: CloseStream_def map_index_def)
  moreover have "streams ?p' k = None" by simp
  moreover have "closed ?p' = closed p @ [c]" by simp
  moreover have "CloseStream ce k ?p' = Panic NilPointerDereference ?p'"
    by (rule CloseStream_unregistered) simp
  ultimately show ?thesis by blast
qed

theorem CloseStream_twice_panics_witness:
  "CloseStream (\<lambda>c. None) ''peerA'' exampleP2p
     = Return None \<lparr> streams = Map.empty, closed = [1] \<rparr>
   \<and> CloseStream (\<lambda>c. None) ''peerA'' \<lparr> streams = Map.empty, closed = [1] \<rparr>
     = Panic NilPointerDereference \<lparr> streams = Map.empty, closed = [1] \<rparr>"
proof -
  have reg: "streams exampleP2p ''peerA'' = Some \<lparr> stream = Some 1, input = Some 1, output = None \<rparr>"
    by (simp add: exampleP2p_def)
  from CloseStream_twice_panics [OF reg, of 1 "\<lambda>c. None"]
  show ?thesis
    by (simp add: CloseStream_def map_index_def zeroStream_def exampleP2p_def)
qed

end
